theory Spec2Isabelle
  imports Main "HOL-Library.Char_ord" "HOL-Library.List_Lexorder" "HOL-Library.Multiset"
begin

section \<open>Data model (types.ts)\<close>

text \<open>
  \<^verbatim>\<open>interface WakeResult { success: boolean; device: string; mac: string; message: string }\<close>
  \<^verbatim>\<open>interface Device { name: string; mac: string; ip?: string; broadcast?: string }\<close>
  An optional field is an \<open>option\<close>: \<open>None\<close> is JavaScript's \<open>undefined\<close> (and SQL's
  \<open>NULL\<close> in a stored row). Both interfaces have a field \<open>mac\<close>; the one of the
  result is written \<open>WakeResult.mac\<close>.
\<close>

record WakeResult =
  success :: bool
  device :: string
  mac :: string
  message :: string

record Device =
  name :: string
  mac :: string
  ip :: "string option"
  broadcast :: "string option"

text \<open>
  \<open>Partial<Device>\<close>: every field may be absent (\<open>None\<close>) or supplied with a string.
\<close>

record Updates =
  u_name :: "string option"
  u_mac :: "string option"
  u_ip :: "string option"
  u_broadcast :: "string option"

text \<open>
  JavaScript truthiness of a value of type \<open>string | undefined\<close>: \<open>undefined\<close> and the
  empty string are falsy.
\<close>

definition truthy :: "string option \<Rightarrow> bool" where
  "truthy v = (case v of None \<Rightarrow> False | Some s \<Rightarrow> s \<noteq> [])"

section \<open>Case folding\<close>

text \<open>
  The SQLite-backed manager compares names with the \<open>NOCASE\<close> collation: the letters
  \<open>A\<close>..\<open>Z\<close> are folded to \<open>a\<close>..\<open>z\<close> and every other byte is kept. \<open>nocase\<close> is
  that folding.

  The file-backed manager compares names through JavaScript's \<open>toLowerCase()\<close>, which
  follows the Unicode case table of the runtime and also folds letters outside ASCII. That
  table is not part of the repository, so \<open>toLowerCase\<close> is a parameter \<open>lc\<close> of every
  function of the file-backed manager, and what is proved of that manager holds for every
  \<open>lc\<close>. On a string of ASCII characters \<open>toLowerCase\<close> folds \<open>A\<close>..\<open>Z\<close> and keeps
  the rest; \<open>ascii_lower\<close> is that restriction and is used only where a closed instance
  with ASCII names is evaluated.
\<close>

definition lower_char :: "char \<Rightarrow> char" where
  "lower_char c =
     (if (65::nat) \<le> of_char c \<and> of_char c \<le> (90::nat)
      then char_of (of_char c + (32::nat)) else c)"

definition nocase :: "string \<Rightarrow> string" where
  "nocase s = map lower_char s"


section \<open>Wake dispatcher (WakeOnLanService)\<close>

subsection \<open>isValidMac\<close>

text \<open>
  \<^verbatim>\<open>/^([0-9A-Fa-f]{2}[:-]){5}([0-9A-Fa-f]{2})$/.test(mac)\<close>
  The pattern is anchored at both ends and every piece has a fixed length, so matching is
  reading the string left to right: \<open>hex2\<close> reads \<open>[0-9A-Fa-f]{2}\<close>, \<open>sep\<close> reads
  \<open>[:-]\<close>, \<open>groups n\<close> reads \<open>([0-9A-Fa-f]{2}[:-]){n}\<close>; each returns the rest of the
  string, or \<open>None\<close> when the piece does not match.
\<close>

definition is_hex :: "char \<Rightarrow> bool" where
  "is_hex c = (c \<in> set ''0123456789ABCDEFabcdef'')"

fun hex2 :: "string \<Rightarrow> string option" where
  "hex2 (a # b # rest) = (if is_hex a \<and> is_hex b then Some rest else None)"
| "hex2 _ = None"

fun sep :: "string \<Rightarrow> string option" where
  "sep (c # rest) = (if c = CHR '':'' \<or> c = CHR ''-'' then Some rest else None)"
| "sep [] = None"

fun groups :: "nat \<Rightarrow> string \<Rightarrow> string option" where
  "groups 0 s = Some s"
| "groups (Suc n) s =
     (case hex2 s of
        None \<Rightarrow> None
      | Some r \<Rightarrow> (case sep r of None \<Rightarrow> None | Some r' \<Rightarrow> groups n r'))"

definition isValidMac :: "string \<Rightarrow> bool" where
  "isValidMac m =
     (case groups 5 m of
        None \<Rightarrow> False
      | Some r \<Rightarrow> (case hex2 r of None \<Rightarrow> False | Some r' \<Rightarrow> r' = []))"

text \<open>
  The format as the specification words it: six groups of two hex digits, joined by one
  separator that is the same throughout. \<open>joined c n s\<close> reads \<open>n\<close> groups each followed
  by the separator \<open>c\<close>, then a last group and the end of the string.
\<close>

fun joined :: "char \<Rightarrow> nat \<Rightarrow> string \<Rightarrow> bool" where
  "joined c 0 s = (hex2 s = Some [])"
| "joined c (Suc n) s =
     (case hex2 s of
        None \<Rightarrow> False
      | Some [] \<Rightarrow> False
      | Some (x # r) \<Rightarrow> x = c \<and> joined c n r)"

definition uniform_mac :: "string \<Rightarrow> bool" where
  "uniform_mac s = (joined (CHR '':'') 5 s \<or> joined (CHR ''-'') 5 s)"

text \<open>One group of the pattern: two hex digits and a separator.\<close>

definition mac_group :: "string \<Rightarrow> bool" where
  "mac_group g =
     (case g of
        [x, y, c] \<Rightarrow> is_hex x \<and> is_hex y \<and> (c = CHR '':'' \<or> c = CHR ''-'')
      | _ \<Rightarrow> False)"

subsection \<open>wake, wakeDevice, wakeMultiple\<close>

text \<open>
  The service hands the transmission to \<open>wol.wake\<close> of the package \<open>wake_on_lan\<close>, which
  is not part of the repository. A call is recorded as \<open>WolWake mac address\<close>
  (\<open>address = None\<close> when no options object is passed). The package is a parameter
  \<open>wol\<close> of the model. Its answer to a call is one of two things: the call throws
  before it returns (\<open>Throws\<close> with the message of the exception), or it returns and the
  callback is invoked with an \<open>Error\<close> (\<open>Callback (Some message)\<close>) or with \<open>null\<close>
  (\<open>Callback None\<close>).

  A promise that has settled is \<open>Resolved\<close> with a value or \<open>Rejected\<close> with the
  message of an error. The executor passed to \<open>new Promise\<close> is given only \<open>resolve\<close>
  and has no \<open>try\<close> block, so an exception thrown by \<open>wol.wake\<close> inside it rejects the
  promise, and the callback resolves it. \<open>wake_call\<close> is the call made by the
  \<open>if (broadcast) ... else ...\<close> at the end of the executor, \<open>wake_callback\<close> is the
  function \<open>callback\<close>, whose value is what the promise resolves with;
  \<open>wakeDevice_call\<close> and \<open>wakeDevice_callback\<close> are the same two pieces of
  \<open>wakeDevice\<close>.
\<close>

datatype wol_call = WolWake string "string option"

datatype wol_answer = Throws string | Callback "string option"

type_synonym wol_package = "wol_call \<Rightarrow> wol_answer"

datatype 'a promise = Resolved 'a | Rejected string

definition wake_call :: "string \<Rightarrow> string option \<Rightarrow> wol_call" where
  "wake_call m bc = (if truthy bc then WolWake m bc else WolWake m None)"

definition wake_callback :: "string \<Rightarrow> string option \<Rightarrow> WakeResult" where
  "wake_callback m err =
     (case err of
        Some msg \<Rightarrow>
          \<lparr>success = False, device = ''Unknown'', WakeResult.mac = m,
           message = ''Failed to wake device: '' @ msg\<rparr>
      | None \<Rightarrow>
          \<lparr>success = True, device = ''Unknown'', WakeResult.mac = m,
           message = ''Magic packet sent successfully''\<rparr>)"

definition wake :: "wol_package \<Rightarrow> string \<Rightarrow> string option \<Rightarrow> WakeResult promise" where
  "wake wol m bc =
     (case wol (wake_call m bc) of
        Throws e \<Rightarrow> Rejected e
      | Callback err \<Rightarrow> Resolved (wake_callback m err))"

definition wakeDevice_call :: "Device \<Rightarrow> wol_call" where
  "wakeDevice_call d =
     (if truthy (broadcast d) then WolWake (mac d) (broadcast d) else WolWake (mac d) None)"

definition wakeDevice_callback :: "Device \<Rightarrow> string option \<Rightarrow> WakeResult" where
  "wakeDevice_callback d err =
     (case err of
        Some msg \<Rightarrow>
          \<lparr>success = False, device = name d, WakeResult.mac = mac d,
           message = ''Failed to wake '' @ name d @ '': '' @ msg\<rparr>
      | None \<Rightarrow>
          \<lparr>success = True, device = name d, WakeResult.mac = mac d,
           message = ''Magic packet sent to '' @ name d @ '' successfully''\<rparr>)"

definition wakeDevice :: "wol_package \<Rightarrow> Device \<Rightarrow> WakeResult promise" where
  "wakeDevice wol d =
     (case wol (wakeDevice_call d) of
        Throws e \<Rightarrow> Rejected e
      | Callback err \<Rightarrow> Resolved (wakeDevice_callback d err))"

text \<open>
  \<^verbatim>\<open>const promises = devices.map(device => this.wakeDevice(device));\<close>
  \<^verbatim>\<open>return Promise.all(promises);\<close>
  Building \<open>promises\<close> runs the executor of every promise at once, so all the calls
  to the package are issued before any callback can run; a call that throws rejects its
  own promise and the \<open>map\<close> goes on. \<open>thrown i\<close> is the message of the exception when
  the \<open>i\<close>-th call throws. The callbacks of the other calls arrive later, in an order
  chosen by the package and the operating system: \<open>completions\<close> lists them as pairs
  (index of the call, error or \<open>null\<close>).

  \<open>Promise.all\<close> rejects as soon as one of its promises is rejected. The promises
  rejected here are rejected before \<open>Promise.all\<close> is called, and it subscribes to its
  promises in input order, so it rejects with the error of the first of them
  (\<open>first_thrown\<close>). Otherwise it keeps one slot per promise, stores each value in the
  slot of its promise and resolves with the slots, in input order, once all are filled.
  \<open>settle\<close> fills the slots (a promise that is already settled ignores a second
  callback); \<open>promise_all\<close> returns \<open>None\<close> while a slot is still empty, which is a
  promise that has not settled.
\<close>

fun settle :: "'a option list \<Rightarrow> (nat \<times> 'a) list \<Rightarrow> 'a option list" where
  "settle slots [] = slots"
| "settle slots ((i, v) # es) =
     settle (if i < length slots \<and> slots ! i = None then slots[i := Some v] else slots) es"

definition promise_all :: "nat \<Rightarrow> (nat \<times> 'a) list \<Rightarrow> 'a list option" where
  "promise_all n es =
     (let slots = settle (replicate n None) es
      in if None \<in> set slots then None else Some (map the slots))"

definition first_thrown :: "(nat \<Rightarrow> string option) \<Rightarrow> nat \<Rightarrow> string option" where
  "first_thrown thrown n =
     (case List.map_filter thrown [0..<n] of [] \<Rightarrow> None | e # es \<Rightarrow> Some e)"

text \<open>
  The first component is the list of calls issued to the package, the second the state of
  the returned promise: \<open>None\<close> while it is pending.
\<close>

definition wakeMultiple ::
  "Device list \<Rightarrow> (nat \<Rightarrow> string option) \<Rightarrow> (nat \<times> string option) list \<Rightarrow>
     wol_call list \<times> WakeResult list promise option" where
  "wakeMultiple ds thrown completions =
     (map wakeDevice_call ds,
      case first_thrown thrown (length ds) of
        Some e \<Rightarrow> Some (Rejected e)
      | None \<Rightarrow>
          map_option Resolved
            (promise_all (length ds)
               (map (\<lambda>(i, err). (i, wakeDevice_callback (ds ! i) err))
                  (filter (\<lambda>(i, err). i < length ds) completions))))"

section \<open>Device registry, SQLite-backed (backend/src/device-manager.ts)\<close>

text \<open>
  An operation either returns a value or throws: \<open>Inl\<close> is the thrown error.
  \<open>AlreadyExists n\<close> is \<^verbatim>\<open>new Error(`Device '${n}' already exists`)\<close>,
  \<open>NotInitialized\<close> is the error of \<open>ensureDb\<close>, \<open>SqliteConstraint\<close> is the rejection
  of \<open>db.run\<close> when a statement violates the \<open>UNIQUE\<close> constraint of the table.
\<close>

datatype error = AlreadyExists string | NotInitialized | SqliteConstraint

type_synonym 'a result = "error + 'a"

subsection \<open>The table and its statements\<close>

text \<open>
  \<^verbatim>\<open>CREATE TABLE IF NOT EXISTS devices (name TEXT NOT NULL UNIQUE COLLATE NOCASE,\<close>
  \<^verbatim>\<open>  mac TEXT NOT NULL, ip TEXT, broadcast TEXT)\<close>
  The table is the list of its rows in insertion order. Each statement the manager runs
  is one function on that list. \<open>name_eq key\<close> is \<open>name = ? COLLATE NOCASE\<close>;
  \<open>unique_names\<close> is the \<open>UNIQUE\<close> constraint.
\<close>

type_synonym table = "Device list"

definition name_eq :: "string \<Rightarrow> Device \<Rightarrow> bool" where
  "name_eq key r = (nocase (name r) = nocase key)"

definition unique_names :: "Device list \<Rightarrow> bool" where
  "unique_names t = distinct (map (\<lambda>r. nocase (name r)) t)"

text \<open>\<^verbatim>\<open>SELECT name, mac, ip, broadcast FROM devices WHERE name = ? COLLATE NOCASE\<close> (first row)\<close>

definition select_by_name :: "string \<Rightarrow> table \<Rightarrow> Device option" where
  "select_by_name key t = find (name_eq key) t"

text \<open>\<^verbatim>\<open>SELECT name, mac, ip, broadcast FROM devices ORDER BY name COLLATE NOCASE\<close>\<close>

definition select_ordered :: "table \<Rightarrow> Device list" where
  "select_ordered t = sort_key (\<lambda>r. nocase (name r)) t"

text \<open>\<^verbatim>\<open>SELECT COUNT(*) as count FROM devices\<close>\<close>

definition select_count :: "table \<Rightarrow> nat" where
  "select_count t = length t"

text \<open>\<^verbatim>\<open>INSERT INTO devices (name, mac, ip, broadcast) VALUES (?, ?, ?, ?)\<close>\<close>

definition insert_row :: "Device \<Rightarrow> table \<Rightarrow> table result" where
  "insert_row r t =
     (if list_ex (name_eq (name r)) t then Inl SqliteConstraint else Inr (t @ [r]))"

text \<open>
  \<^verbatim>\<open>DELETE FROM devices WHERE name = ? COLLATE NOCASE\<close>, with the number of deleted rows
  (\<open>result.changes\<close>).
\<close>

definition delete_by_name :: "string \<Rightarrow> table \<Rightarrow> nat \<times> table" where
  "delete_by_name key t =
     (length (filter (name_eq key) t), filter (\<lambda>r. \<not> name_eq key r) t)"

text \<open>
  \<^verbatim>\<open>UPDATE devices SET <fields> WHERE name = ? COLLATE NOCASE\<close>: the \<open>SET\<close> clauses are
  applied, in order, to every row the \<open>WHERE\<close> clause selects; the statement is rejected
  and changes nothing when the new rows break the \<open>UNIQUE\<close> constraint. It returns the
  number of rows selected.
\<close>

datatype column = ColName | ColMac | ColIp | ColBroadcast

fun set_column :: "column \<times> string \<Rightarrow> Device \<Rightarrow> Device" where
  "set_column (ColName, v) r = r\<lparr>name := v\<rparr>"
| "set_column (ColMac, v) r = r\<lparr>mac := v\<rparr>"
| "set_column (ColIp, v) r = r\<lparr>ip := Some v\<rparr>"
| "set_column (ColBroadcast, v) r = r\<lparr>broadcast := Some v\<rparr>"

definition update_by_name ::
  "(column \<times> string) list \<Rightarrow> string \<Rightarrow> table \<Rightarrow> (nat \<times> table) result" where
  "update_by_name sets key t =
     (let t' = map (\<lambda>r. if name_eq key r then fold set_column sets r else r) t
      in if unique_names t' then Inr (length (filter (name_eq key) t), t')
         else Inl SqliteConstraint)"

subsection \<open>The manager\<close>

text \<open>
  \<open>db\<close> is the field \<open>this.db\<close>: \<open>None\<close> is \<open>null\<close>, \<open>Some t\<close> an open database whose
  table \<open>devices\<close> holds the rows \<open>t\<close>. \<open>console\<close> records the lines written by
  \<open>console.warn\<close>. Every operation returns its result and the state it leaves.
\<close>

record DeviceManager =
  db :: "table option"
  console :: "string list"

text \<open>
  The file \<open>devices.json\<close>: absent, present but not readable as a JSON array
  (\<open>readFile\<close>, \<open>JSON.parse\<close> or the iteration throws), or parsed to a list of \<open>Device\<close>.
\<close>

datatype json_file = Missing | Unreadable | Parsed "Device list"

definition ensureDb :: "DeviceManager \<Rightarrow> table result" where
  "ensureDb m = (case db m of None \<Rightarrow> Inl NotInitialized | Some t \<Rightarrow> Inr t)"

text \<open>\<^verbatim>\<open>{ ...device, ip: device.ip ?? undefined, broadcast: device.broadcast ?? undefined }\<close>\<close>

definition normalizeDevice :: "Device \<Rightarrow> Device" where
  "normalizeDevice d =
     d\<lparr>ip := (case ip d of None \<Rightarrow> None | Some v \<Rightarrow> Some v),
       broadcast := (case broadcast d of None \<Rightarrow> None | Some v \<Rightarrow> Some v)\<rparr>"

definition getDevices :: "DeviceManager \<Rightarrow> Device list result \<times> DeviceManager" where
  "getDevices m =
     (case ensureDb m of
        Inl e \<Rightarrow> (Inl e, m)
      | Inr t \<Rightarrow> (Inr (map normalizeDevice (select_ordered t)), m))"

definition getDevice :: "string \<Rightarrow> DeviceManager \<Rightarrow> Device option result \<times> DeviceManager" where
  "getDevice nm m =
     (case ensureDb m of
        Inl e \<Rightarrow> (Inl e, m)
      | Inr t \<Rightarrow>
          (case select_by_name nm t of
             Some d \<Rightarrow> (Inr (Some (normalizeDevice d)), m)
           | None \<Rightarrow> (Inr None, m)))"

text \<open>The values bound by an \<open>INSERT\<close>: \<open>device.name, device.mac, device.ip ?? null, device.broadcast ?? null\<close>.\<close>

definition row_of :: "Device \<Rightarrow> Device" where
  "row_of d = \<lparr>name = name d, mac = mac d, ip = ip d, broadcast = broadcast d\<rparr>"

definition addDevice :: "Device \<Rightarrow> DeviceManager \<Rightarrow> unit result \<times> DeviceManager" where
  "addDevice d m =
     (case ensureDb m of
        Inl e \<Rightarrow> (Inl e, m)
      | Inr t \<Rightarrow>
          (case fst (getDevice (name d) m) of
             Inl e \<Rightarrow> (Inl e, m)
           | Inr (Some existing) \<Rightarrow> (Inl (AlreadyExists (name d)), m)
           | Inr None \<Rightarrow>
               (case insert_row (row_of d) t of
                  Inl e \<Rightarrow> (Inl e, m)
                | Inr t' \<Rightarrow> (Inr (), m\<lparr>db := Some t'\<rparr>))))"

definition removeDevice :: "string \<Rightarrow> DeviceManager \<Rightarrow> bool result \<times> DeviceManager" where
  "removeDevice nm m =
     (case ensureDb m of
        Inl e \<Rightarrow> (Inl e, m)
      | Inr t \<Rightarrow>
          (let (changes, t') = delete_by_name nm t
           in (Inr (changes > 0), m\<lparr>db := Some t'\<rparr>)))"

text \<open>
  The arrays \<open>fields\<close> and \<open>values\<close> of \<open>updateDevice\<close>: one \<open>SET\<close> clause for each field
  of \<open>updates\<close> that is not \<open>undefined\<close>, in the order name, mac, ip, broadcast.
\<close>

definition set_clauses :: "Updates \<Rightarrow> (column \<times> string) list" where
  "set_clauses u =
     (case u_name u of None \<Rightarrow> [] | Some v \<Rightarrow> [(ColName, v)]) @
     (case u_mac u of None \<Rightarrow> [] | Some v \<Rightarrow> [(ColMac, v)]) @
     (case u_ip u of None \<Rightarrow> [] | Some v \<Rightarrow> [(ColIp, v)]) @
     (case u_broadcast u of None \<Rightarrow> [] | Some v \<Rightarrow> [(ColBroadcast, v)])"

text \<open>The second half of \<open>updateDevice\<close>, from \<open>const fields\<close> to the end.\<close>

definition run_update ::
  "string \<Rightarrow> Updates \<Rightarrow> table \<Rightarrow> DeviceManager \<Rightarrow> bool result \<times> DeviceManager" where
  "run_update nm u t m =
     (if set_clauses u = [] then (Inr True, m)
      else
        (case update_by_name (set_clauses u) nm t of
           Inl e \<Rightarrow> (Inl e, m)
         | Inr (changes, t') \<Rightarrow> (Inr (changes > 0), m\<lparr>db := Some t'\<rparr>)))"

text \<open>
  The guard \<^verbatim>\<open>updates.name && updates.name !== name\<close> compares the new name with the
  argument \<open>name\<close> as strings (\<open>!==\<close>); the lookup \<open>getDevice(updates.name)\<close> that follows
  compares with \<open>NOCASE\<close>.
\<close>

definition updateDevice ::
  "string \<Rightarrow> Updates \<Rightarrow> DeviceManager \<Rightarrow> bool result \<times> DeviceManager" where
  "updateDevice nm u m =
     (case ensureDb m of
        Inl e \<Rightarrow> (Inl e, m)
      | Inr t \<Rightarrow>
          (case fst (getDevice nm m) of
             Inl e \<Rightarrow> (Inl e, m)
           | Inr None \<Rightarrow> (Inr False, m)
           | Inr (Some d) \<Rightarrow>
               (if truthy (u_name u) \<and> u_name u \<noteq> Some nm
                then
                  (case fst (getDevice (the (u_name u)) m) of
                     Inl e \<Rightarrow> (Inl e, m)
                   | Inr (Some existing) \<Rightarrow> (Inl (AlreadyExists (the (u_name u))), m)
                   | Inr None \<Rightarrow> run_update nm u t m)
                else run_update nm u t m)))"

subsection \<open>First-load bootstrap\<close>

definition example_device :: Device where
  "example_device =
     \<lparr>name = ''example-device'', mac = ''00:11:22:33:44:55'',
      ip = Some ''192.168.1.100'', broadcast = Some ''192.168.1.255''\<rparr>"

text \<open>
  The loop \<^verbatim>\<open>for (const device of devices) { await db.run('INSERT ...') }\<close>: it stops at
  the first statement that is rejected and keeps the rows inserted before it (no
  transaction is open). The result is the table and the error that stopped the loop.
\<close>

fun insert_all :: "Device list \<Rightarrow> table \<Rightarrow> table \<times> error option" where
  "insert_all [] t = (t, None)"
| "insert_all (d # ds) t =
     (case insert_row (row_of d) t of
        Inl e \<Rightarrow> (t, Some e)
      | Inr t' \<Rightarrow> insert_all ds t')"

text \<open>The last statement of \<open>migrateLegacyConfig\<close>: the insertion of the example record.\<close>

definition seed_example :: "table \<Rightarrow> DeviceManager \<Rightarrow> unit result \<times> DeviceManager" where
  "seed_example t m =
     (case insert_row example_device t of
        Inl e \<Rightarrow> (Inl e, m\<lparr>db := Some t\<rparr>)
      | Inr t' \<Rightarrow> (Inr (), m\<lparr>db := Some t'\<rparr>))"

text \<open>\<^verbatim>\<open>console.warn('Failed to migrate legacy devices.json:', error)\<close>\<close>

definition warn_migrate :: "DeviceManager \<Rightarrow> DeviceManager" where
  "warn_migrate m = m\<lparr>console := console m @ [''Failed to migrate legacy devices.json:'']\<rparr>"

text \<open>
  \<open>legacy\<close> is the file at \<open>LEGACY_CONFIG_PATH\<close>. A file that parses is inserted entry by
  entry; when that succeeds the function returns. Any exception inside the \<open>try\<close> block
  is caught, a warning is written, and control falls through to the example record.
\<close>

definition migrateLegacyConfig ::
  "json_file \<Rightarrow> DeviceManager \<Rightarrow> unit result \<times> DeviceManager" where
  "migrateLegacyConfig legacy m =
     (case ensureDb m of
        Inl e \<Rightarrow> (Inl e, m)
      | Inr t \<Rightarrow>
          (if select_count t > 0 then (Inr (), m)
           else
             (case legacy of
                Missing \<Rightarrow> seed_example t m
              | Unreadable \<Rightarrow> seed_example t (warn_migrate m)
              | Parsed ds \<Rightarrow>
                  (case insert_all ds t of
                     (t', None) \<Rightarrow> (Inr (), m\<lparr>db := Some t'\<rparr>)
                   | (t', Some e) \<Rightarrow> seed_example t' (warn_migrate m)))))"

text \<open>
  \<open>store\<close> is the content of the table \<open>devices\<close> in the database file that \<open>open\<close>
  finds (no rows when the file or the table has just been created).
\<close>

definition loadDevices_open :: "table \<Rightarrow> DeviceManager \<Rightarrow> DeviceManager" where
  "loadDevices_open store m = m\<lparr>db := Some store\<rparr>"

text \<open>
  \<open>loadDevices_open\<close> is the state once \<^verbatim>\<open>this.db = await open(...)\<close> has assigned the
  field and the table exists; \<open>loadDevices\<close> is still awaiting \<open>migrateLegacyConfig\<close>
  then, and other code of the process can run at each of its \<open>await\<close>s.
\<close>

definition loadDevices ::
  "table \<Rightarrow> json_file \<Rightarrow> DeviceManager \<Rightarrow> unit result \<times> DeviceManager" where
  "loadDevices store legacy m =
     (case db m of
        Some t \<Rightarrow> (Inr (), m)
      | None \<Rightarrow> migrateLegacyConfig legacy (loadDevices_open store m))"

text \<open>A manager just constructed (\<open>private db: Database | null = null\<close>), and an open one.\<close>

definition new_manager :: DeviceManager where
  "new_manager = \<lparr>db = None, console = []\<rparr>"

definition open_manager :: "table \<Rightarrow> DeviceManager" where
  "open_manager t = \<lparr>db = Some t, console = []\<rparr>"

text \<open>The registry invariant of the SQLite-backed manager: open, and names unique.\<close>

definition registry_ok :: "DeviceManager \<Rightarrow> bool" where
  "registry_ok m = (case db m of None \<Rightarrow> False | Some t \<Rightarrow> unique_names t)"

section \<open>Device registry, file-backed (the manager that keeps \<open>devices.json\<close>)\<close>

text \<open>
  \<open>devices\<close> is the array \<open>this.devices\<close>, \<open>config_file\<close> the file at \<open>CONFIG_PATH\<close>.
  The methods have the names of the SQLite-backed manager; here they carry the suffix
  \<open>_file\<close>.
\<close>

record DeviceManager_file =
  devices :: "Device list"
  config_file :: json_file

definition saveDevices_file :: "DeviceManager_file \<Rightarrow> DeviceManager_file" where
  "saveDevices_file m = m\<lparr>config_file := Parsed (devices m)\<rparr>"

text \<open>The warning printed when the file cannot be read is not recorded in this state.\<close>

definition loadDevices_file :: "DeviceManager_file \<Rightarrow> DeviceManager_file" where
  "loadDevices_file m =
     (case config_file m of
        Parsed ds \<Rightarrow> m\<lparr>devices := ds\<rparr>
      | Unreadable \<Rightarrow> m\<lparr>devices := []\<rparr>
      | Missing \<Rightarrow> saveDevices_file (m\<lparr>devices := [example_device]\<rparr>))"


text \<open>\<^verbatim>\<open>d => d.name.toLowerCase() === name.toLowerCase()\<close>\<close>

definition same_name :: "(string \<Rightarrow> string) \<Rightarrow> string \<Rightarrow> Device \<Rightarrow> bool" where
  "same_name lc nm d = (lc (name d) = lc nm)"

definition getDevice_file :: "(string \<Rightarrow> string) \<Rightarrow> string \<Rightarrow> DeviceManager_file \<Rightarrow> Device option" where
  "getDevice_file lc nm m = find (same_name lc nm) (devices m)"

definition addDevice_file ::
  "(string \<Rightarrow> string) \<Rightarrow> Device \<Rightarrow> DeviceManager_file \<Rightarrow> unit result \<times> DeviceManager_file" where
  "addDevice_file lc d m =
     (case getDevice_file lc (name d) m of
        Some existing \<Rightarrow> (Inl (AlreadyExists (name d)), m)
      | None \<Rightarrow> (Inr (), saveDevices_file (m\<lparr>devices := devices m @ [d]\<rparr>)))"

text \<open>\<open>Array.prototype.findIndex\<close>, with \<open>None\<close> for \<open>-1\<close>.\<close>

fun findIndex :: "('a \<Rightarrow> bool) \<Rightarrow> 'a list \<Rightarrow> nat option" where
  "findIndex P [] = None"
| "findIndex P (x # xs) = (if P x then Some 0 else map_option Suc (findIndex P xs))"

text \<open>\<open>this.devices.splice(index, 1)\<close> removes the element at \<open>index\<close>.\<close>

definition removeDevice_file ::
  "(string \<Rightarrow> string) \<Rightarrow> string \<Rightarrow> DeviceManager_file \<Rightarrow> bool result \<times> DeviceManager_file" where
  "removeDevice_file lc nm m =
     (case findIndex (same_name lc nm) (devices m) of
        None \<Rightarrow> (Inr False, m)
      | Some i \<Rightarrow>
          (Inr True,
           saveDevices_file (m\<lparr>devices := take i (devices m) @ drop (Suc i) (devices m)\<rparr>)))"

text \<open>
  \<open>Object.assign(device, updates)\<close> copies every field present in \<open>updates\<close> onto the
  object; a field that is absent is left as it is.
\<close>

definition assign :: "Device \<Rightarrow> Updates \<Rightarrow> Device" where
  "assign d u =
     d\<lparr>name := (case u_name u of None \<Rightarrow> name d | Some v \<Rightarrow> v),
       mac := (case u_mac u of None \<Rightarrow> mac d | Some v \<Rightarrow> v),
       ip := (case u_ip u of None \<Rightarrow> ip d | Some v \<Rightarrow> Some v),
       broadcast := (case u_broadcast u of None \<Rightarrow> broadcast d | Some v \<Rightarrow> Some v)\<rparr>"

text \<open>
  \<open>getDevice(name)\<close> returns the first matching object of the array itself, and
  \<open>Object.assign\<close> changes that object in place: the array is updated at the index of
  the first match. No check of the new name is made.
\<close>

definition updateDevice_file ::
  "(string \<Rightarrow> string) \<Rightarrow> string \<Rightarrow> Updates \<Rightarrow> DeviceManager_file \<Rightarrow> bool result \<times> DeviceManager_file" where
  "updateDevice_file lc nm u m =
     (case findIndex (same_name lc nm) (devices m) of
        None \<Rightarrow> (Inr False, m)
      | Some i \<Rightarrow>
          (Inr True,
           saveDevices_file (m\<lparr>devices := (devices m)[i := assign (devices m ! i) u]\<rparr>)))"

text \<open>The names of the array are unique under the manager's own comparison.\<close>

definition unique_names_file :: "(string \<Rightarrow> string) \<Rightarrow> Device list \<Rightarrow> bool" where
  "unique_names_file lc ds = distinct (map (\<lambda>d. lc (name d)) ds)"

definition file_manager :: "Device list \<Rightarrow> DeviceManager_file" where
  "file_manager ds = \<lparr>devices = ds, config_file = Parsed ds\<rparr>"

section \<open>Sequences of registry operations\<close>






section \<open>Sample data for the closed instances\<close>

definition dev :: "string \<Rightarrow> Device" where
  "dev n = \<lparr>name = n, mac = ''00:11:22:33:44:55'', ip = None, broadcast = None\<rparr>"

definition no_updates :: Updates where
  "no_updates = \<lparr>u_name = None, u_mac = None, u_ip = None, u_broadcast = None\<rparr>"

definition rename_to :: "string \<Rightarrow> Updates" where
  "rename_to n = \<lparr>u_name = Some n, u_mac = None, u_ip = None, u_broadcast = None\<rparr>"

section \<open>Properties of isValidMac\<close>

lemma hex2_Some: "hex2 s = Some r \<longleftrightarrow> (\<exists>a b. s = a # b # r \<and> is_hex a \<and> is_hex b)"
  by (cases s rule: hex2.cases) auto

lemma sep_Some: "sep s = Some r \<longleftrightarrow> (\<exists>c. s = c # r \<and> (c = CHR '':'' \<or> c = CHR ''-''))"
  by (cases s) auto

lemma mac_group_iff:
  "mac_group g \<longleftrightarrow> (\<exists>x y c. g = [x, y, c] \<and> is_hex x \<and> is_hex y \<and> (c = CHR '':'' \<or> c = CHR ''-''))"
  by (auto simp: mac_group_def split: list.splits)

lemma groups_Suc_chars:
  "groups (Suc n) s = Some r \<longleftrightarrow>
     (\<exists>x y c s'. s = x # y # c # s' \<and> is_hex x \<and> is_hex y \<and> (c = CHR '':'' \<or> c = CHR ''-'') \<and>
        groups n s' = Some r)"
  by (auto simp: hex2_Some sep_Some split: option.splits)

lemma groups_Suc:
  "groups (Suc n) s = Some r \<longleftrightarrow> (\<exists>g s'. mac_group g \<and> s = g @ s' \<and> groups n s' = Some r)"
proof
  assume "groups (Suc n) s = Some r"
  then obtain x y c s' where h: "s = x # y # c # s'" "is_hex x" "is_hex y"
      "c = CHR '':'' \<or> c = CHR ''-''" "groups n s' = Some r"
    unfolding groups_Suc_chars by blast
  then have "mac_group [x, y, c] \<and> s = [x, y, c] @ s' \<and> groups n s' = Some r"
    by (simp add: mac_group_iff)
  then show "\<exists>g s'. mac_group g \<and> s = g @ s' \<and> groups n s' = Some r" by blast
next
  assume "\<exists>g s'. mac_group g \<and> s = g @ s' \<and> groups n s' = Some r"
  then obtain g s' where h: "mac_group g" "s = g @ s'" "groups n s' = Some r" by blast
  from h(1) obtain x y c where "g = [x, y, c]" "is_hex x" "is_hex y" "c = CHR '':'' \<or> c = CHR ''-''"
    unfolding mac_group_iff by blast
  with h show "groups (Suc n) s = Some r" unfolding groups_Suc_chars by simp
qed

lemma groups_shape:
  "groups n s = Some r \<longleftrightarrow> (\<exists>gs. length gs = n \<and> (\<forall>g\<in>set gs. mac_group g) \<and> s = concat gs @ r)"
proof (induction n arbitrary: s)
  case 0 then show ?case by auto
next
  case (Suc n)
  show ?case
  proof
    assume "groups (Suc n) s = Some r"
    then obtain g s' where g: "mac_group g" "s = g @ s'" "groups n s' = Some r"
      unfolding groups_Suc by blast
    from g(3) Suc.IH obtain gs where gs: "length gs = n" "\<forall>g\<in>set gs. mac_group g" "s' = concat gs @ r"
      by blast
    have "length (g # gs) = Suc n \<and> (\<forall>h\<in>set (g # gs). mac_group h) \<and> s = concat (g # gs) @ r"
      using g gs by simp
    then show "\<exists>gs. length gs = Suc n \<and> (\<forall>g\<in>set gs. mac_group g) \<and> s = concat gs @ r"
      by blast
  next
    assume "\<exists>gs. length gs = Suc n \<and> (\<forall>g\<in>set gs. mac_group g) \<and> s = concat gs @ r"
    then obtain gs where gs: "length gs = Suc n" "\<forall>g\<in>set gs. mac_group g" "s = concat gs @ r"
      by blast
    then obtain g gs' where c: "gs = g # gs'" by (cases gs) auto
    have "groups n (concat gs' @ r) = Some r"
      using Suc.IH[of "concat gs' @ r"] gs c by auto
    then show "groups (Suc n) s = Some r"
      unfolding groups_Suc using gs c by auto
  qed
qed

lemma isValidMac_iff:
  "isValidMac s \<longleftrightarrow>
     (\<exists>gs a b. length gs = 5 \<and> (\<forall>g\<in>set gs. mac_group g) \<and> is_hex a \<and> is_hex b \<and>
        s = concat gs @ [a, b])"
proof
  assume "isValidMac s"
  then obtain r where r: "groups 5 s = Some r" "hex2 r = Some []"
    by (auto simp: isValidMac_def split: option.splits)
  from r(2) obtain a b where ab: "r = [a, b]" "is_hex a" "is_hex b"
    unfolding hex2_Some by blast
  from r(1) obtain gs where "length gs = 5" "\<forall>g\<in>set gs. mac_group g" "s = concat gs @ r"
    unfolding groups_shape by blast
  with ab show "\<exists>gs a b. length gs = 5 \<and> (\<forall>g\<in>set gs. mac_group g) \<and> is_hex a \<and> is_hex b \<and>
        s = concat gs @ [a, b]" by blast
next
  assume "\<exists>gs a b. length gs = 5 \<and> (\<forall>g\<in>set gs. mac_group g) \<and> is_hex a \<and> is_hex b \<and>
        s = concat gs @ [a, b]"
  then obtain gs a b where h: "length gs = 5" "\<forall>g\<in>set gs. mac_group g" "is_hex a" "is_hex b"
     "s = concat gs @ [a, b]" by blast
  then have "groups 5 s = Some [a, b]" unfolding groups_shape by blast
  then show "isValidMac s" using h by (simp add: isValidMac_def)
qed

lemma joined_groups:
  "c = CHR '':'' \<or> c = CHR ''-'' \<Longrightarrow> joined c n s \<Longrightarrow> \<exists>r. groups n s = Some r \<and> hex2 r = Some []"
proof (induction n arbitrary: s)
  case 0 then show ?case by simp
next
  case (Suc n)
  from Suc.prems(2) obtain a b r where s: "s = a # b # c # r" "is_hex a" "is_hex b" "joined c n r"
    by (auto simp: hex2_Some split: option.splits list.splits)
  from Suc.IH[OF Suc.prems(1) s(4)] obtain r' where "groups n r = Some r'" "hex2 r' = Some []" by blast
  then show ?case using s Suc.prems(1) by auto
qed

lemma uniform_mac_valid: "uniform_mac s \<Longrightarrow> isValidMac s"
  unfolding uniform_mac_def isValidMac_def using joined_groups by fastforce


lemma mac_group_length: "mac_group g \<Longrightarrow> length g = 3"
  by (auto simp: mac_group_iff)

lemma concat_groups_length: "\<forall>g\<in>set gs. mac_group g \<Longrightarrow> length (concat gs) = 3 * length gs"
  by (induction gs) (auto simp: mac_group_length)

lemma isValidMac_length: "isValidMac s \<Longrightarrow> length s = 17"
  unfolding isValidMac_iff using concat_groups_length by fastforce

text \<open>
  C2, evaluated: \<open>isValidMac\<close> accepts the mixed-separator string
  \<open>AA:BB-CC:DD:EE:FF\<close>, which is not in the uniformly separated format; the pattern
  reads each separator on its own. The other four strings of the claim are treated as it
  says.
\<close>

theorem isValidMac_accepts_mixed_separators:
  "isValidMac ''AA:BB-CC:DD:EE:FF'' \<and> \<not> uniform_mac ''AA:BB-CC:DD:EE:FF'' \<and>
   isValidMac ''AA:BB:CC:DD:EE:FF'' \<and>
   isValidMac ''aa-bb-cc-dd-ee-ff'' \<and>
   \<not> isValidMac ''AA:BB:CC:DD:EE'' \<and>
   \<not> isValidMac ''AA:BB:CC:DD:EE:GG''"
  by code_simp

text \<open>
  What the pattern accepts: five groups of two hex digits (either case), each followed by
  a separator that is \<open>:\<close> or \<open>-\<close>, chosen group by group, and then a sixth pair of
  hex digits. Every string of the uniform format is among them.
\<close>

lemma isValidMac_format:
  "(isValidMac s \<longleftrightarrow>
      (\<exists>gs a b. length gs = 5 \<and> (\<forall>g\<in>set gs. mac_group g) \<and> is_hex a \<and> is_hex b \<and>
         s = concat gs @ [a, b])) \<and>
   (uniform_mac s \<longrightarrow> isValidMac s)"
  using isValidMac_iff uniform_mac_valid by blast

section \<open>Properties of the wake dispatcher\<close>

text \<open>
  What \<open>wake\<close> itself decides about the destination: the MAC string is handed to the
  package unchanged, and an \<open>address\<close> option is passed exactly when \<open>broadcast\<close> is a
  non-empty string. The bytes of the datagram, the port and the default address are chosen
  inside the package.
\<close>

lemma wake_forwards:
  "wake_call m None = WolWake m None \<and>
   wake_call m (Some []) = WolWake m None \<and>
   (b \<noteq> [] \<longrightarrow> wake_call m (Some b) = WolWake m (Some b))"
  by (simp add: wake_call_def truthy_def)

text \<open>
  When the package answers through the callback, the failure is reported as a value:
  the promise resolves, \<open>success\<close> is true exactly when the callback got \<open>null\<close>, an
  error's message is embedded in \<open>message\<close>, and the fields \<open>device\<close> and \<open>mac\<close> are
  \<open>Unknown\<close> and the MAC as given for \<open>wake\<close>, the record's name and MAC for
  \<open>wakeDevice\<close>.
\<close>

lemma wake_callback_fields:
  "device (wake_callback m err) = ''Unknown'' \<and>
   WakeResult.mac (wake_callback m err) = m \<and>
   (success (wake_callback m err) \<longleftrightarrow> err = None) \<and>
   (\<forall>msg. err = Some msg \<longrightarrow>
      message (wake_callback m err) = ''Failed to wake device: '' @ msg)"
  by (simp add: wake_callback_def split: option.splits)

lemma wakeDevice_callback_fields:
  "device (wakeDevice_callback d err) = name d \<and>
   WakeResult.mac (wakeDevice_callback d err) = mac d \<and>
   (success (wakeDevice_callback d err) \<longleftrightarrow> err = None) \<and>
   (\<forall>msg. err = Some msg \<longrightarrow>
      message (wakeDevice_callback d err) = ''Failed to wake '' @ name d @ '': '' @ msg)"
  by (simp add: wakeDevice_callback_def split: option.splits)

lemma wake_resolves_on_callback:
  "wol (wake_call m bc) = Callback err \<Longrightarrow> wake wol m bc = Resolved (wake_callback m err)"
  by (simp add: wake_def)

lemma wakeDevice_resolves_on_callback:
  "wol (wakeDevice_call d) = Callback err \<Longrightarrow>
   wakeDevice wol d = Resolved (wakeDevice_callback d err)"
  by (simp add: wakeDevice_def)

text \<open>
  C5, evaluated: when \<open>wol.wake\<close> throws instead of calling back, nothing in \<open>wake\<close> or
  \<open>wakeDevice\<close> catches the exception: the promise they return is rejected with it, for
  every MAC, broadcast and device. The caller gets an error, not a \<open>WakeResult\<close> with
  \<open>success = false\<close>.
\<close>

theorem wake_rejects_when_package_throws:
  "wake (\<lambda>c. Throws e) m bc = Rejected e \<and>
   wakeDevice (\<lambda>c. Throws e) d = Rejected e \<and>
   wake (\<lambda>c. Throws ''malformed MAC address'') ''AA:BB-CC:DD:EE:FF'' None =
     Rejected ''malformed MAC address''"
  by (simp add: wake_def wakeDevice_def)

lemma length_settle [simp]: "length (settle slots es) = length slots"
  by (induction slots es rule: settle.induct) auto

lemma settle_nth:
  "distinct (map fst es) \<Longrightarrow> \<forall>p\<in>set es. fst p < length slots \<and> slots ! fst p = None \<Longrightarrow>
   i < length slots \<Longrightarrow>
   settle slots es ! i = (case map_of es i of Some v \<Rightarrow> Some v | None \<Rightarrow> slots ! i)"
proof (induction slots es rule: settle.induct)
  case (1 slots)
  then show ?case by simp
next
  case (2 slots j v es)
  let ?slots' = "slots[j := Some v]"
  have j: "j < length slots" "slots ! j = None" using "2.prems"(2) by auto
  have d: "distinct (map fst es)" "j \<notin> fst ` set es" using "2.prems"(1) by auto
  have pre: "\<forall>p\<in>set es. fst p < length ?slots' \<and> ?slots' ! fst p = None"
  proof
    fix p assume p: "p \<in> set es"
    then have "fst p \<noteq> j" using d(2) by auto
    then show "fst p < length ?slots' \<and> ?slots' ! fst p = None"
      using "2.prems"(2) p by (simp add: nth_list_update)
  qed
  have "settle ?slots' es ! i = (case map_of es i of Some v \<Rightarrow> Some v | None \<Rightarrow> ?slots' ! i)"
    using "2.IH"[OF d(1)] pre j "2.prems"(3) by simp
  moreover have "map_of es j = None" using d(2) by (simp add: map_of_eq_None_iff)
  ultimately show ?case using j "2.prems"(3)
    by (auto simp: nth_list_update split: option.splits)
qed

lemma promise_all_resolves:
  assumes "distinct (map fst es)" and "fst ` set es = {..<n}"
  shows "promise_all n es = Some (map (\<lambda>i. the (map_of es i)) [0..<n])"
proof -
  let ?slots = "settle (replicate n None) es"
  have lt: "fst p < n" if "p \<in> set es" for p
    using assms(2) that by (metis imageI lessThan_iff)
  have pre: "\<forall>p\<in>set es. fst p < length (replicate n None) \<and> replicate n None ! fst p = None"
    using lt by simp
  have nth: "?slots ! i = Some (the (map_of es i))" if "i < n" for i
  proof -
    have "i \<in> fst ` set es" using assms(2) that by simp
    then obtain v where "map_of es i = Some v"
      by (metis map_of_eq_None_iff not_Some_eq)
    then show ?thesis using settle_nth[OF assms(1) pre, of i] that by simp
  qed
  have len: "length ?slots = n" by simp
  have eq: "?slots = map (\<lambda>i. Some (the (map_of es i))) [0..<n]"
    by (rule nth_equalityI) (simp_all add: nth)
  then have "None \<notin> set ?slots" by auto
  moreover have "map the ?slots = map (\<lambda>i. the (map_of es i)) [0..<n]"
    by (subst eq) simp
  ultimately show ?thesis by (simp add: promise_all_def Let_def)
qed

lemma settle_untouched:
  "i < length slots \<Longrightarrow> i \<notin> fst ` set es \<Longrightarrow> settle slots es ! i = slots ! i"
  by (induction slots es rule: settle.induct) (auto simp: nth_list_update)

lemma promise_all_pending:
  assumes "i < n" and "i \<notin> fst ` set es"
  shows "promise_all n es = None"
proof -
  have "settle (replicate n None) es ! i = None"
    using settle_untouched[of i "replicate n None" es] assms by simp
  then have "None \<in> set (settle (replicate n None) es)"
    using assms(1) by (metis length_replicate length_settle nth_mem)
  then show ?thesis by (simp add: promise_all_def Let_def)
qed

lemma map_filter_Nil: "List.map_filter f xs = [] \<longleftrightarrow> (\<forall>x\<in>set xs. f x = None)"
  by (induction xs) (auto simp: map_filter_simps split: option.splits)

lemma first_thrown_None: "first_thrown thrown n = None \<longleftrightarrow> (\<forall>i<n. thrown i = None)"
proof -
  have "first_thrown thrown n = None \<longleftrightarrow> List.map_filter thrown [0..<n] = []"
    by (simp add: first_thrown_def split: list.splits)
  then show ?thesis by (auto simp: map_filter_Nil)
qed

text \<open>
  When no call throws and each call is answered once through its callback, in any order,
  the promise of \<open>wakeMultiple\<close> resolves with one result per device, in input order.
\<close>

lemma wakeMultiple_resolves:
  assumes "\<forall>i<length ds. thrown i = None"
    and "distinct (map fst cs)" and "fst ` set cs = {..<length ds}"
  shows "wakeMultiple ds thrown cs =
           (map wakeDevice_call ds,
            Some (Resolved
              (map (\<lambda>i. wakeDevice_callback (ds ! i) (the (map_of cs i))) [0..<length ds])))"
proof -
  let ?n = "length ds"
  let ?f = "\<lambda>(i, err). (i, wakeDevice_callback (ds ! i) err)"
  let ?cs = "filter (\<lambda>(i, err). i < ?n) cs"
  have none: "first_thrown thrown ?n = None" using assms(1) by (simp add: first_thrown_None)
  have lt: "fst p < ?n" if "p \<in> set cs" for p
    using assms(3) that by (metis imageI lessThan_iff)
  have all: "?cs = cs" using lt by (auto simp: filter_id_conv)
  have fst: "map fst (map ?f cs) = map fst cs" by (auto simp: case_prod_beta)
  have d: "distinct (map fst (map ?f cs))" using assms(2) by (simp only: fst)
  have s: "fst ` set (map ?f cs) = {..<?n}" using assms(3) fst by (metis list.set_map)
  have m: "map_of (map ?f cs) i = map_option (wakeDevice_callback (ds ! i)) (map_of cs i)" for i
    by (induction cs) auto
  have "the (map_of (map ?f cs) i) = wakeDevice_callback (ds ! i) (the (map_of cs i))" if "i < ?n" for i
  proof -
    have "i \<in> fst ` set cs" using assms(3) that by simp
    then obtain v where "map_of cs i = Some v" by (metis map_of_eq_None_iff not_Some_eq)
    then show ?thesis by (simp add: m)
  qed
  then have "map (\<lambda>i. the (map_of (map ?f cs) i)) [0..<?n]
        = map (\<lambda>i. wakeDevice_callback (ds ! i) (the (map_of cs i))) [0..<?n]"
    by simp
  then show ?thesis
    unfolding wakeMultiple_def all none using promise_all_resolves[OF d s] by simp
qed

text \<open>
  When the call for one device throws, the promise of \<open>wakeMultiple\<close> is rejected,
  whatever the callbacks of the other devices are.
\<close>

lemma wakeMultiple_rejects:
  assumes "i < length ds" and "thrown i = Some e"
  shows "\<exists>e'. snd (wakeMultiple ds thrown cs) = Some (Rejected e')"
proof -
  have "first_thrown thrown (length ds) \<noteq> None"
    using assms first_thrown_None[of thrown "length ds"] by auto
  then obtain e' where "first_thrown thrown (length ds) = Some e'" by blast
  then show ?thesis by (simp add: wakeMultiple_def)
qed

text \<open>
  C4, evaluated: on the three devices \<open>pc\<close>, \<open>nas\<close>, \<open>tv\<close>, when the call for
  \<open>nas\<close> throws, all three calls are still issued, but the promise of \<open>wakeMultiple\<close>
  is rejected with that exception whatever the callbacks \<open>cs\<close> of \<open>pc\<close> and \<open>tv\<close>
  are: the caller gets no result sequence, so the results of the other two devices are
  lost with it.
\<close>

theorem wakeMultiple_rejects_when_one_call_throws:
  "wakeMultiple [dev ''pc'', dev ''nas'', dev ''tv'']
     (\<lambda>i. if i = 1 then Some ''malformed MAC address'' else None) cs =
   (map wakeDevice_call [dev ''pc'', dev ''nas'', dev ''tv''],
    Some (Rejected ''malformed MAC address''))"
  by (simp add: wakeMultiple_def first_thrown_def List.map_filter_def upt_conv_Cons)

section \<open>Properties of the SQLite-backed registry\<close>

lemma normalizeDevice_id [simp]: "normalizeDevice d = d"
  by (cases "ip d"; cases "broadcast d") (simp_all add: normalizeDevice_def)

lemma map_normalizeDevice [simp]: "map normalizeDevice ds = ds"
  by (induction ds) simp_all

lemma row_of_id [simp]: "row_of (d::Device) = d"
  by (simp add: row_of_def)



lemma getDevice_state [simp]: "snd (getDevice nm m) = m"
  by (simp add: getDevice_def split: sum.splits option.splits)



lemma findIndex_None: "findIndex P xs = None \<longleftrightarrow> find P xs = None"
  by (induction xs) auto

subsection \<open>The table keeps its names unique\<close>

lemma insert_row_unique:
  "unique_names t \<Longrightarrow> insert_row r t = Inr t' \<Longrightarrow> unique_names t'"
proof -
  assume u: "unique_names t" and i: "insert_row r t = Inr t'"
  from i have fresh: "\<not> list_ex (name_eq (name r)) t" and t': "t' = t @ [r]"
    by (auto simp: insert_row_def split: if_splits)
  from fresh have "nocase (name r) \<notin> set (map (\<lambda>r. nocase (name r)) t)"
    by (auto simp: list_ex_iff name_eq_def)
  with u show "unique_names t'"
    by (simp add: unique_names_def t')
qed



lemma update_by_name_error: "update_by_name sets key t = Inl e \<Longrightarrow> e = SqliteConstraint"
  by (simp add: update_by_name_def Let_def split: if_splits)





lemma insert_all_unique: "unique_names t \<Longrightarrow> unique_names (fst (insert_all ds t))"
  by (induction ds arbitrary: t) (auto dest: insert_row_unique split: sum.splits)

lemma seed_example_ok: "unique_names t \<Longrightarrow> registry_ok (snd (seed_example t m))"
  by (auto simp: seed_example_def registry_ok_def dest: insert_row_unique split: sum.splits)

lemma migrate_ok: "registry_ok m \<Longrightarrow> registry_ok (snd (migrateLegacyConfig legacy m))"
proof -
  assume ok: "registry_ok m"
  then obtain t where t: "db m = Some t" "unique_names t"
    by (auto simp: registry_ok_def split: option.splits)
  show ?thesis
  proof (cases "select_count t > 0")
    case True
    then show ?thesis using ok t by (simp add: migrateLegacyConfig_def ensureDb_def)
  next
    case False
    show ?thesis
    proof (cases legacy)
      case Missing
      then show ?thesis using False t seed_example_ok[OF t(2)]
        by (simp add: migrateLegacyConfig_def ensureDb_def)
    next
      case Unreadable
      then show ?thesis using False t seed_example_ok[OF t(2)]
        by (simp add: migrateLegacyConfig_def ensureDb_def)
    next
      case (Parsed ds)
      obtain t' e where ia: "insert_all ds t = (t', e)" by (cases "insert_all ds t")
      have u': "unique_names t'" using insert_all_unique[OF t(2), of ds] ia by simp
      show ?thesis
      proof (cases e)
        case None
        then show ?thesis using Parsed False t ia u'
          by (simp add: migrateLegacyConfig_def ensureDb_def registry_ok_def)
      next
        case (Some err)
        then show ?thesis using Parsed False t ia seed_example_ok[OF u']
          by (simp add: migrateLegacyConfig_def ensureDb_def)
      qed
    qed
  qed
qed

lemma loadDevices_ok:
  "unique_names store \<Longrightarrow> db m = None \<Longrightarrow> registry_ok (snd (loadDevices store legacy m))"
  using migrate_ok[of "m\<lparr>db := Some store\<rparr>" legacy]
  by (simp add: loadDevices_def loadDevices_open_def registry_ok_def)





text \<open>
  On the file-backed manager \<open>addDevice\<close> and \<open>removeDevice\<close> keep the names unique
  as well.
\<close>

lemma distinct_remove_nth: "distinct ys \<Longrightarrow> distinct (take i ys @ drop (Suc i) ys)"
proof -
  assume d: "distinct ys"
  have "distinct (take i ys @ drop i ys)" using d by simp
  then have "set (take i ys) \<inter> set (drop i ys) = {}" by (simp only: distinct_append)
  moreover have "set (drop (Suc i) ys) \<subseteq> set (drop i ys)"
    by (rule set_drop_subset_set_drop) simp
  ultimately have "set (take i ys) \<inter> set (drop (Suc i) ys) = {}" by blast
  then show ?thesis using d by simp
qed

lemma addDevice_file_unique:
  "unique_names_file lc (devices m) \<Longrightarrow>
   unique_names_file lc (devices (snd (addDevice_file lc d m)))"
proof (cases "getDevice_file lc (name d) m")
  case None
  assume u: "unique_names_file lc (devices m)"
  have "lc (name d) \<notin> set (map (\<lambda>r. lc (name r)) (devices m))"
  proof
    assume "lc (name d) \<in> set (map (\<lambda>r. lc (name r)) (devices m))"
    then obtain x where "x \<in> set (devices m)" "lc (name x) = lc (name d)" by auto
    then have "same_name lc (name d) x" by (simp add: same_name_def)
    with \<open>x \<in> set (devices m)\<close> None show False
      by (simp add: getDevice_file_def find_None_iff)
  qed
  with u None show ?thesis
    by (simp add: addDevice_file_def saveDevices_file_def unique_names_file_def)
next
  case (Some x)
  assume "unique_names_file lc (devices m)"
  with Some show ?thesis by (simp add: addDevice_file_def)
qed

lemma removeDevice_file_unique:
  "unique_names_file lc (devices m) \<Longrightarrow>
   unique_names_file lc (devices (snd (removeDevice_file lc nm m)))"
proof (cases "findIndex (same_name lc nm) (devices m)")
  case None
  assume "unique_names_file lc (devices m)"
  with None show ?thesis by (simp add: removeDevice_file_def)
next
  case (Some i)
  assume "unique_names_file lc (devices m)"
  then have "distinct (take i (map (\<lambda>r. lc (name r)) (devices m)) @
                       drop (Suc i) (map (\<lambda>r. lc (name r)) (devices m)))"
    unfolding unique_names_file_def by (rule distinct_remove_nth)
  with Some show ?thesis
    by (simp add: removeDevice_file_def saveDevices_file_def unique_names_file_def take_map drop_map)
qed

subsection \<open>Operations before initialisation\<close>

text \<open>
  C10, as stated: every operation invoked before \<open>loadDevices()\<close> has completed throws
  the initialisation error. \<open>loadDevices\<close> assigns \<open>this.db\<close> before it awaits the
  migration. On a new manager with an empty table and no legacy file, the state it passes
  through then is \<open>loadDevices_open [] new_manager\<close>; the completed load has inserted
  the example record, so that state is before completion. In it \<open>getDevices\<close> returns
  the empty list, \<open>getDevice\<close> returns absent, \<open>removeDevice\<close> and \<open>updateDevice\<close>
  return \<open>false\<close> and \<open>addDevice\<close> inserts: none throws the initialisation error.
\<close>

theorem operations_during_loadDevices_counterexample:
  "db new_manager = None \<and>
   loadDevices [] Missing new_manager =
     migrateLegacyConfig Missing (loadDevices_open [] new_manager) \<and>
   snd (loadDevices [] Missing new_manager) = open_manager [example_device] \<and>
   loadDevices_open [] new_manager = open_manager [] \<and>
   getDevices (loadDevices_open [] new_manager) = (Inr [], open_manager []) \<and>
   getDevice ''nas'' (loadDevices_open [] new_manager) = (Inr None, open_manager []) \<and>
   addDevice (dev ''nas'') (loadDevices_open [] new_manager) =
     (Inr (), open_manager [dev ''nas'']) \<and>
   removeDevice ''nas'' (loadDevices_open [] new_manager) = (Inr False, open_manager []) \<and>
   updateDevice ''nas'' no_updates (loadDevices_open [] new_manager) =
     (Inr False, open_manager [])"
  by code_simp

lemma getDevices_initialised: "fst (getDevices m) = Inl NotInitialized \<longleftrightarrow> db m = None"
  by (simp add: getDevices_def ensureDb_def split: option.splits)

lemma getDevice_initialised: "fst (getDevice nm m) = Inl NotInitialized \<longleftrightarrow> db m = None"
  by (simp add: getDevice_def ensureDb_def split: option.splits)

lemma insert_row_error: "insert_row r t = Inl e \<Longrightarrow> e = SqliteConstraint"
  by (simp add: insert_row_def split: if_splits)

lemma addDevice_initialised: "fst (addDevice d m) = Inl NotInitialized \<longleftrightarrow> db m = None"
  by (auto simp: addDevice_def ensureDb_def getDevice_def dest: insert_row_error
      split: option.splits sum.splits)

lemma removeDevice_initialised:
  "fst (removeDevice nm m) = Inl NotInitialized \<longleftrightarrow> db m = None"
  by (simp add: removeDevice_def ensureDb_def split: option.splits prod.splits)

lemma run_update_initialised: "fst (run_update nm u t m) \<noteq> Inl NotInitialized"
  by (auto simp: run_update_def dest: update_by_name_error split: sum.splits prod.splits)

lemma updateDevice_initialised:
  "fst (updateDevice nm u m) = Inl NotInitialized \<longleftrightarrow> db m = None"
  using run_update_initialised
  by (auto simp: updateDevice_def ensureDb_def getDevice_def split: option.splits)

text \<open>
  C10, amended: on the SQLite-backed manager each of \<open>getDevices\<close>, \<open>getDevice\<close>,
  \<open>addDevice\<close>, \<open>removeDevice\<close> and \<open>updateDevice\<close> throws the initialisation error
  exactly when \<open>this.db\<close> is still \<open>null\<close>, that is, when it is invoked before
  \<open>loadDevices()\<close> has opened the database; it then leaves the state as it is and
  returns no absent value or \<open>false\<close>. Once \<open>this.db\<close> is assigned, also while
  \<open>loadDevices()\<close> has not yet completed, no operation throws that error.
\<close>

theorem operations_need_loadDevices:
  "(db m = None \<longrightarrow>
      getDevices m = (Inl NotInitialized, m) \<and>
      getDevice nm m = (Inl NotInitialized, m) \<and>
      addDevice d m = (Inl NotInitialized, m) \<and>
      removeDevice nm m = (Inl NotInitialized, m) \<and>
      updateDevice nm u m = (Inl NotInitialized, m)) \<and>
   (db m \<noteq> None \<longrightarrow>
      fst (getDevices m) \<noteq> Inl NotInitialized \<and>
      fst (getDevice nm m) \<noteq> Inl NotInitialized \<and>
      fst (addDevice d m) \<noteq> Inl NotInitialized \<and>
      fst (removeDevice nm m) \<noteq> Inl NotInitialized \<and>
      fst (updateDevice nm u m) \<noteq> Inl NotInitialized)"
proof (intro conjI impI)
  assume "db m = None"
  then show "getDevices m = (Inl NotInitialized, m)" "getDevice nm m = (Inl NotInitialized, m)"
    "addDevice d m = (Inl NotInitialized, m)" "removeDevice nm m = (Inl NotInitialized, m)"
    "updateDevice nm u m = (Inl NotInitialized, m)"
    by (simp_all add: getDevices_def getDevice_def addDevice_def removeDevice_def
        updateDevice_def ensureDb_def)
next
  assume "db m \<noteq> None"
  then show "fst (getDevices m) \<noteq> Inl NotInitialized"
    "fst (getDevice nm m) \<noteq> Inl NotInitialized"
    "fst (addDevice d m) \<noteq> Inl NotInitialized"
    "fst (removeDevice nm m) \<noteq> Inl NotInitialized"
    "fst (updateDevice nm u m) \<noteq> Inl NotInitialized"
    by (simp_all add: getDevices_initialised getDevice_initialised addDevice_initialised
        removeDevice_initialised updateDevice_initialised)
qed

theorem operations_need_loadDevices_witness:
  "db new_manager = None \<and>
   getDevices new_manager = (Inl NotInitialized, new_manager) \<and>
   getDevice ''nas'' new_manager = (Inl NotInitialized, new_manager) \<and>
   addDevice (dev ''nas'') new_manager = (Inl NotInitialized, new_manager) \<and>
   removeDevice ''nas'' new_manager = (Inl NotInitialized, new_manager) \<and>
   updateDevice ''nas'' no_updates new_manager = (Inl NotInitialized, new_manager) \<and>
   db (loadDevices_open [] new_manager) \<noteq> None \<and>
   fst (getDevices (loadDevices_open [] new_manager)) \<noteq> Inl NotInitialized \<and>
   fst (getDevice ''nas'' (loadDevices_open [] new_manager)) \<noteq> Inl NotInitialized \<and>
   fst (addDevice (dev ''nas'') (loadDevices_open [] new_manager)) \<noteq> Inl NotInitialized \<and>
   fst (removeDevice ''nas'' (loadDevices_open [] new_manager)) \<noteq> Inl NotInitialized \<and>
   fst (updateDevice ''nas'' no_updates (loadDevices_open [] new_manager)) \<noteq> Inl NotInitialized"
proof -
  have h: "db new_manager = None" by (simp add: new_manager_def)
  have k: "db (loadDevices_open [] new_manager) \<noteq> None" by (simp add: loadDevices_open_def)
  from operations_need_loadDevices [of new_manager "''nas''" "dev ''nas''" no_updates]
       operations_need_loadDevices [of "loadDevices_open [] new_manager" "''nas''" "dev ''nas''"
         no_updates] h k
  show ?thesis by simp
qed

subsection \<open>Adding the same name twice\<close>



subsection \<open>Renaming through update\<close>

text \<open>
  C3, evaluated on the file-backed manager: from the two records \<open>a\<close> and \<open>b\<close>, whose
  names are distinct up to case, \<open>updateDevice('a', {name: 'B'})\<close> returns \<open>true\<close> and
  leaves the records \<open>B\<close> and \<open>b\<close>, whose names are equal up to case.
\<close>

theorem updateDevice_file_rename_collision:
  "unique_names [dev ''a'', dev ''b''] \<and>
   updateDevice_file lc ''a'' (rename_to ''B'') (file_manager [dev ''a'', dev ''b'']) =
     (Inr True, file_manager [dev ''B'', dev ''b'']) \<and>
   \<not> unique_names [dev ''B'', dev ''b'']"
proof -
  have u: "unique_names [dev ''a'', dev ''b'']" by code_simp
  have v: "\<not> unique_names [dev ''B'', dev ''b'']" by code_simp
  have w: "updateDevice_file lc ''a'' (rename_to ''B'') (file_manager [dev ''a'', dev ''b'']) =
     (Inr True, file_manager [dev ''B'', dev ''b''])"
    by (simp add: updateDevice_file_def same_name_def file_manager_def saveDevices_file_def
        assign_def rename_to_def dev_def)
  from u v w show ?thesis by simp
qed

text \<open>
  C7, evaluated: on the SQLite-backed manager holding the single record \<open>nas\<close>,
  \<open>updateDevice('nas', {name: 'NAS'})\<close> throws the already-exists error, although the
  only record the new name matches is the one being renamed. The \<open>UPDATE\<close> statement
  itself would be accepted by the table, and the same rename goes through when the caller
  spells the record's name \<open>NAS\<close>. On the file-backed manager a rename onto the name of
  another record throws nothing.
\<close>

theorem updateDevice_rename_own_case:
  "select_by_name ''NAS'' [dev ''nas''] = Some (dev ''nas'') \<and>
   updateDevice ''nas'' (rename_to ''NAS'') (open_manager [dev ''nas'']) =
     (Inl (AlreadyExists ''NAS''), open_manager [dev ''nas'']) \<and>
   update_by_name (set_clauses (rename_to ''NAS'')) ''nas'' [dev ''nas''] =
     Inr (1, [dev ''NAS'']) \<and>
   updateDevice ''NAS'' (rename_to ''NAS'') (open_manager [dev ''nas'']) =
     (Inr True, open_manager [dev ''NAS'']) \<and>
   updateDevice_file lc ''a'' (rename_to ''B'') (file_manager [dev ''a'', dev ''b'']) =
     (Inr True, file_manager [dev ''B'', dev ''b''])"
proof -
  have s: "select_by_name ''NAS'' [dev ''nas''] = Some (dev ''nas'') \<and>
   updateDevice ''nas'' (rename_to ''NAS'') (open_manager [dev ''nas'']) =
     (Inl (AlreadyExists ''NAS''), open_manager [dev ''nas'']) \<and>
   update_by_name (set_clauses (rename_to ''NAS'')) ''nas'' [dev ''nas''] =
     Inr (1, [dev ''NAS'']) \<and>
   updateDevice ''NAS'' (rename_to ''NAS'') (open_manager [dev ''nas'']) =
     (Inr True, open_manager [dev ''NAS''])"
    by code_simp
  have w: "updateDevice_file lc ''a'' (rename_to ''B'') (file_manager [dev ''a'', dev ''b'']) =
     (Inr True, file_manager [dev ''B'', dev ''b''])"
    by (simp add: updateDevice_file_def same_name_def file_manager_def saveDevices_file_def
        assign_def rename_to_def dev_def)
  from s w show ?thesis by simp
qed

text \<open>
  The parts of \<open>update\<close> that hold as described: an unknown name gives \<open>false\<close>, and a
  field absent from the update keeps its value. The already-exists error of the
  SQLite-backed manager is thrown exactly when the record exists, a non-empty new name is
  supplied that differs as a string from the name the caller passed, and some record
  (possibly the same one) matches the new name up to case.
\<close>

lemma updateDevice_not_found:
  "db m = Some t \<Longrightarrow> select_by_name nm t = None \<Longrightarrow> updateDevice nm u m = (Inr False, m)"
  by (simp add: updateDevice_def ensureDb_def getDevice_def)

lemma updateDevice_file_not_found:
  "getDevice_file lc nm m = None \<Longrightarrow> updateDevice_file lc nm u m = (Inr False, m)"
  using findIndex_None[of "same_name lc nm" "devices m"]
  by (simp add: updateDevice_file_def getDevice_file_def)

lemma updateDevice_file_never_fails: "fst (updateDevice_file lc nm u m) \<noteq> Inl e"
  by (simp add: updateDevice_file_def split: option.splits)

lemma updateDevice_AlreadyExists_iff:
  "updateDevice nm u m = (Inl (AlreadyExists x), m') \<longleftrightarrow>
     (\<exists>t. db m = Some t \<and> select_by_name nm t \<noteq> None \<and> truthy (u_name u) \<and>
          u_name u \<noteq> Some nm \<and> select_by_name (the (u_name u)) t \<noteq> None \<and>
          x = the (u_name u) \<and> m' = m)"
  by (auto simp: updateDevice_def ensureDb_def getDevice_def run_update_def
      dest: update_by_name_error
      split: option.splits sum.splits prod.splits if_splits)

lemma fold_set_column_clauses: "fold set_column (set_clauses u) d = assign d u"
  by (cases "u_name u"; cases "u_mac u"; cases "u_ip u"; cases "u_broadcast u")
     (simp_all add: set_clauses_def assign_def)

lemma assign_absent:
  "(u_name u = None \<longrightarrow> name (assign d u) = name d) \<and>
   (u_mac u = None \<longrightarrow> mac (assign d u) = mac d) \<and>
   (u_ip u = None \<longrightarrow> ip (assign d u) = ip d) \<and>
   (u_broadcast u = None \<longrightarrow> broadcast (assign d u) = broadcast d)"
  by (simp add: assign_def)

subsection \<open>Listing\<close>








subsection \<open>Bootstrap\<close>





end
